theory Spec2Isabelle
  imports Main "HOL-Library.Char_ord" "HOL-Library.List_Lexorder" "HOL-Library.Product_Lexorder"
begin

section \<open>The managed resource (api/v1/simple_types.go)\<close>

text \<open>
  The Go structs of the API package, field for field. Of the embedded
  \<^verbatim>\<open>metav1.ObjectMeta\<close> only the fields the controller and the resource store read are
  kept: the identity, the resource version (the token of optimistic concurrency) and the
  generation of the spec.
\<close>

record SimpleSpec =
  Message :: string

record SimpleStatus =
  Replied :: bool

record ObjectMeta =
  Namespace :: string
  Name :: string
  ResourceVersion :: nat
  Generation :: int

record Simple =
  metadata :: ObjectMeta
  Spec :: SimpleSpec
  Status :: SimpleStatus

text \<open>\<^verbatim>\<open>types.NamespacedName\<close>: the namespace and the name of an object.\<close>

type_synonym NamespacedName = "string \<times> string"

definition key_of :: "Simple \<Rightarrow> NamespacedName" where
  "key_of obj = (Namespace (metadata obj), Name (metadata obj))"

section \<open>The schema of the resource\<close>

text \<open>
  The struct tags and the markers of \<^verbatim>\<open>simple_types.go\<close> declare how a resource looks on
  the wire and what the schema accepts. A document has each field present or absent.
  \<^item> \<^verbatim>\<open>Spec SimpleSpec `json:"spec"`\<close> with \<^verbatim>\<open>+required\<close>: the spec must be present;
  \<^item> \<^verbatim>\<open>Message string `json:"message"`\<close> with \<^verbatim>\<open>+kubebuilder:validation:MinLength=1\<close>:
    the message must be present (no \<^verbatim>\<open>omitempty\<close>) and have length at least 1;
  \<^item> \<^verbatim>\<open>Status SimpleStatus `json:"status,omitempty,omitzero"`\<close> with \<^verbatim>\<open>+optional\<close>, and
    \<^verbatim>\<open>Replied bool `json:"replied,omitempty"`\<close> with \<^verbatim>\<open>+optional\<close>: both may be absent.
\<close>

record SimpleSpec_doc =
  doc_message :: "string option"

record SimpleStatus_doc =
  doc_replied :: "bool option"

record Simple_doc =
  doc_metadata :: ObjectMeta
  doc_spec :: "SimpleSpec_doc option"
  doc_status :: "SimpleStatus_doc option"

datatype schema_error = Required string | MinLength string nat

definition validate_SimpleSpec :: "SimpleSpec_doc \<Rightarrow> schema_error option" where
  "validate_SimpleSpec s =
     (case doc_message s of
        None \<Rightarrow> Some (Required ''spec.message'')
      | Some m \<Rightarrow> if length m < 1 then Some (MinLength ''spec.message'' 1) else None)"

definition validate_Simple :: "Simple_doc \<Rightarrow> schema_error option" where
  "validate_Simple d =
     (case doc_spec d of
        None \<Rightarrow> Some (Required ''spec'')
      | Some s \<Rightarrow> validate_SimpleSpec s)"

text \<open>Decoding into the Go structs: an absent field leaves the zero value of its type.\<close>

definition decode_SimpleSpec :: "SimpleSpec_doc \<Rightarrow> SimpleSpec" where
  "decode_SimpleSpec s = \<lparr>Message = (case doc_message s of None \<Rightarrow> [] | Some m \<Rightarrow> m)\<rparr>"

definition decode_SimpleStatus :: "SimpleStatus_doc \<Rightarrow> SimpleStatus" where
  "decode_SimpleStatus st = \<lparr>Replied = (case doc_replied st of None \<Rightarrow> False | Some b \<Rightarrow> b)\<rparr>"

definition decode_Simple :: "Simple_doc \<Rightarrow> Simple" where
  "decode_Simple d =
     \<lparr>metadata = doc_metadata d,
      Spec = (case doc_spec d of None \<Rightarrow> \<lparr>Message = []\<rparr> | Some s \<Rightarrow> decode_SimpleSpec s),
      Status = (case doc_status d of None \<Rightarrow> \<lparr>Replied = False\<rparr>
                | Some st \<Rightarrow> decode_SimpleStatus st)\<rparr>"

text \<open>
  Encoding: \<^verbatim>\<open>omitempty\<close> leaves out a false \<^verbatim>\<open>replied\<close>, \<^verbatim>\<open>omitzero\<close> leaves out a
  status that is the zero struct; spec and message are always written.
\<close>

definition encode_SimpleStatus :: "SimpleStatus \<Rightarrow> SimpleStatus_doc" where
  "encode_SimpleStatus st = \<lparr>doc_replied = (if Replied st then Some True else None)\<rparr>"

definition encode_Simple :: "Simple \<Rightarrow> Simple_doc" where
  "encode_Simple obj =
     \<lparr>doc_metadata = metadata obj,
      doc_spec = Some \<lparr>doc_message = Some (Message (Spec obj))\<rparr>,
      doc_status = (if Status obj = \<lparr>Replied = False\<rparr> then None
                    else Some (encode_SimpleStatus (Status obj)))\<rparr>"

text \<open>A document is admitted when the schema accepts it, and is then held as the struct.\<close>

definition admit :: "Simple_doc \<Rightarrow> schema_error + Simple" where
  "admit d = (case validate_Simple d of Some e \<Rightarrow> Inl e | None \<Rightarrow> Inr (decode_Simple d))"

section \<open>The collaborators of the controller\<close>

text \<open>
  \<^verbatim>\<open>Reconcile\<close> talks to three collaborators: the client (\<^verbatim>\<open>r.Get\<close>,
  \<^verbatim>\<open>r.Status().Update\<close>), the logger (\<^verbatim>\<open>log.Info\<close>) and nothing else. Every call is
  appended to a trace, so that the number and the order of the calls of one invocation can
  be read off the final state.
\<close>

datatype api_error = NotFound | Conflict | ServerError string

datatype call =
    CallGet NamespacedName
  | CallLogInfo string "(string \<times> string) list"
  | CallStatusUpdate Simple

fun is_get :: "call \<Rightarrow> bool" where
  "is_get (CallGet k) = True"
| "is_get c = False"

fun is_write :: "call \<Rightarrow> bool" where
  "is_write (CallStatusUpdate obj) = True"
| "is_write c = False"

text \<open>
  A metric series is identified by its name and its label pairs. The counters and the
  histogram observations of the process are part of the state, so that the metric effect
  of an invocation can be read; they change only where the code records something.
\<close>

type_synonym labels = "(string \<times> string) list"

type_synonym series_id = "string \<times> labels"

record world =
  objects :: "NamespacedName \<rightharpoonup> Simple"
  calls :: "call list"
  counters :: "series_id \<Rightarrow> nat"
  histograms :: "series_id \<Rightarrow> nat"

text \<open>
  What the resource store answers is outside the controller: a fetch or a write may fail
  for a reason of the store's own (a timeout, a concurrent writer). The failures of one
  invocation are given from outside; without one, the store answers from its contents.
\<close>

record faults =
  get_fault :: "api_error option"
  update_fault :: "api_error option"

definition no_faults :: faults where
  "no_faults = \<lparr>get_fault = None, update_fault = None\<rparr>"

text \<open>\<^verbatim>\<open>r.Get(ctx, key, &obj)\<close>: the stored object, or an error; absent objects are NotFound.\<close>

definition Get :: "world \<Rightarrow> faults \<Rightarrow> NamespacedName \<Rightarrow> (api_error + Simple) \<times> world" where
  "Get w f key =
     (let w' = w\<lparr>calls := calls w @ [CallGet key]\<rparr> in
      case get_fault f of
        Some e \<Rightarrow> (Inl e, w')
      | None \<Rightarrow>
          (case objects w key of
             None \<Rightarrow> (Inl NotFound, w')
           | Some obj \<Rightarrow> (Inr obj, w')))"

text \<open>
  \<^verbatim>\<open>r.Status().Update(ctx, &obj)\<close>: the write to the status subresource. It is conditional on
  the resource version, replaces the status of the stored object only (spec and identity
  stay as stored) and advances the resource version. A failed write leaves the store as it
  was.
\<close>

definition StatusUpdate :: "world \<Rightarrow> faults \<Rightarrow> Simple \<Rightarrow> api_error option \<times> world" where
  "StatusUpdate w f obj =
     (let w' = w\<lparr>calls := calls w @ [CallStatusUpdate obj]\<rparr> in
      case update_fault f of
        Some e \<Rightarrow> (Some e, w')
      | None \<Rightarrow>
          (case objects w (key_of obj) of
             None \<Rightarrow> (Some NotFound, w')
           | Some cur \<Rightarrow>
               if ResourceVersion (metadata cur) \<noteq> ResourceVersion (metadata obj)
               then (Some Conflict, w')
               else (None, w'\<lparr>objects := (objects w)(key_of obj \<mapsto>
                      cur\<lparr>metadata := (metadata cur)\<lparr>ResourceVersion :=
                                          Suc (ResourceVersion (metadata cur))\<rparr>,
                          Status := Status obj\<rparr>)\<rparr>)))"

text \<open>\<^verbatim>\<open>log.Info(msg, keysAndValues...)\<close>.\<close>

definition LogInfo :: "world \<Rightarrow> string \<Rightarrow> (string \<times> string) list \<Rightarrow> world" where
  "LogInfo w msg kvs = w\<lparr>calls := calls w @ [CallLogInfo msg kvs]\<rparr>"

text \<open>\<^verbatim>\<open>client.IgnoreNotFound(err)\<close>: nil for a NotFound error, the error otherwise.\<close>

fun IgnoreNotFound :: "api_error option \<Rightarrow> api_error option" where
  "IgnoreNotFound (Some NotFound) = None"
| "IgnoreNotFound err = err"

section \<open>The controller (Reconcile)\<close>

text \<open>\<^verbatim>\<open>ctrl.Request\<close> and \<^verbatim>\<open>ctrl.Result\<close>; the function returns the pair (result, error).\<close>

record Request =
  NamespacedName :: NamespacedName

record Result =
  Requeue :: bool
  RequeueAfter :: int

definition empty_Result :: Result where
  "empty_Result = \<lparr>Requeue = False, RequeueAfter = 0\<rparr>"

text \<open>
  The body of \<^verbatim>\<open>Reconcile\<close>, statement by statement:
  fetch (an error returns through \<^verbatim>\<open>IgnoreNotFound\<close>), log, and, when the status is not
  yet replied, set it and write it (an error of the write returns as it is).
\<close>

definition Reconcile :: "world \<Rightarrow> faults \<Rightarrow> Request \<Rightarrow> (Result \<times> api_error option) \<times> world" where
  "Reconcile w f req =
     (case Get w f (NamespacedName req) of
        (Inl err, w1) \<Rightarrow> ((empty_Result, IgnoreNotFound (Some err)), w1)
      | (Inr simple, w1) \<Rightarrow>
          (let w2 = LogInfo w1 ''Hallo Welt!''
                      [(''name'', Name (metadata simple)), (''message'', Message (Spec simple))]
           in if \<not> Replied (Status simple)
              then (let simple' = simple\<lparr>Status := (Status simple)\<lparr>Replied := True\<rparr>\<rparr>
                    in case StatusUpdate w2 f simple' of
                         (Some err, w3) \<Rightarrow> ((empty_Result, Some err), w3)
                       | (None, w3) \<Rightarrow> ((empty_Result, None), w3))
              else ((empty_Result, None), w2)))"

text \<open>The calls one invocation adds to the trace, and the writes among them.\<close>

definition new_calls :: "world \<Rightarrow> world \<Rightarrow> call list" where
  "new_calls w w' = drop (length (calls w)) (calls w')"

definition writes :: "world \<Rightarrow> world \<Rightarrow> call list" where
  "writes w w' = filter is_write (new_calls w w')"

section \<open>Repeated invocations on one record\<close>

text \<open>
  The scheduler calls Reconcile again and again with the same request; each invocation
  meets its own failures of the store. \<open>run\<close> gives the state after each invocation.
\<close>

fun run :: "world \<Rightarrow> faults list \<Rightarrow> Request \<Rightarrow> world list" where
  "run w [] req = []"
| "run w (f # fs) req = snd (Reconcile w f req) # run (snd (Reconcile w f req)) fs req"

definition replied_of :: "world \<Rightarrow> NamespacedName \<Rightarrow> bool" where
  "replied_of w k = (case objects w k of None \<Rightarrow> False | Some obj \<Rightarrow> Replied (Status obj))"

definition generation_of :: "world \<Rightarrow> NamespacedName \<Rightarrow> int" where
  "generation_of w k = (case objects w k of None \<Rightarrow> 0 | Some obj \<Rightarrow> Generation (metadata obj))"

text \<open>
  The number of steps of a sequence of states, entered from \<open>w\<close>, at which the record
  \<open>k\<close> goes from not replied to replied and has generation \<open>g\<close>.
\<close>

fun flips :: "NamespacedName \<Rightarrow> int \<Rightarrow> world \<Rightarrow> world list \<Rightarrow> nat" where
  "flips k g w [] = 0"
| "flips k g w (w' # ws) =
     (if \<not> replied_of w k \<and> replied_of w' k \<and> generation_of w' k = g then 1 else 0)
     + flips k g w' ws"

section \<open>The metric registry\<close>

text \<open>
  Modelled from the spec: the metrics library of the repository is not among the sources,
  so the series, the registry and its operations follow sections 3 and 4.2 of the
  specification. A series has a name, label pairs (kept sorted, they are its identity
  together with the name), a kind and its accumulator: the value of a counter or gauge,
  and for a histogram the sum and the number of its observations.
\<close>

datatype kind = Counter | Gauge | Histogram

record series =
  series_name :: string
  series_labels :: labels
  series_kind :: kind
  series_value :: int
  series_count :: nat

text \<open>Modelled from the spec: the identity of a series is (name, sorted label set).\<close>

definition identity :: "series \<Rightarrow> series_id" where
  "identity s = (series_name s, sort (series_labels s))"

text \<open>
  Modelled from the spec: the error taxonomy of the registry (section 7), and the registry
  itself: the kind each name is registered with, the series in the order of their
  creation, the configured maximum of label combinations per name, the kind inferred for
  a name that was never registered, and the counter of rejected combinations.
\<close>

datatype registry_error = DuplicateSeriesKind | CardinalityExceeded

record Registry =
  kinds :: "string \<rightharpoonup> kind"
  all_series :: "series list"
  max_cardinality :: nat
  infer_kind :: "string \<Rightarrow> kind"
  cardinality_rejected_total :: nat

text \<open>Modelled from the spec: a registry is constructed explicitly, empty, with its configuration.\<close>

definition new_Registry :: "nat \<Rightarrow> (string \<Rightarrow> kind) \<Rightarrow> Registry" where
  "new_Registry m infer = \<lparr>kinds = Map.empty, all_series = [], max_cardinality = m,
                            infer_kind = infer, cardinality_rejected_total = 0\<rparr>"

text \<open>
  Modelled from the spec: \<^verbatim>\<open>register(name, kind, label-names)\<close> fails with
  DuplicateSeriesKind if the name already exists with a different kind. The label names
  play no part in what the specification says of it and are left out.
\<close>

definition register :: "Registry \<Rightarrow> string \<Rightarrow> kind \<Rightarrow> registry_error + Registry" where
  "register reg name k =
     (case kinds reg name of
        None \<Rightarrow> Inr (reg\<lparr>kinds := (kinds reg)(name \<mapsto> k)\<rparr>)
      | Some k' \<Rightarrow> if k' \<noteq> k then Inl DuplicateSeriesKind else Inr reg)"

text \<open>
  Modelled from the spec: a value is folded into the accumulator per kind (counter: add;
  gauge: set; histogram: update, here the sum and the count of the observations).
\<close>

definition fold_value :: "series \<Rightarrow> int \<Rightarrow> series" where
  "fold_value s v =
     (case series_kind s of
        Counter \<Rightarrow> s\<lparr>series_value := series_value s + v\<rparr>
      | Gauge \<Rightarrow> s\<lparr>series_value := v\<rparr>
      | Histogram \<Rightarrow> s\<lparr>series_value := series_value s + v, series_count := Suc (series_count s)\<rparr>)"

text \<open>
  Modelled from the spec: the cardinality of a name is the number of label combinations
  recorded under it (the glossary's definition); each combination is one series.
\<close>

definition cardinality :: "Registry \<Rightarrow> string \<Rightarrow> nat" where
  "cardinality reg name = length (filter (\<lambda>s. series_name s = name) (all_series reg))"

text \<open>Modelled from the spec: whether a series of this identity has been created.\<close>

definition has_series :: "Registry \<Rightarrow> series_id \<Rightarrow> bool" where
  "has_series reg sid = (sid \<in> set (map identity (all_series reg)))"

text \<open>
  Modelled from the spec: \<^verbatim>\<open>record(name, labels, value)\<close> folds the value into the series
  of that identity. It creates the series on first use, with the registered kind of the
  name or else the inferred one, unless the number of label combinations of the name would
  exceed the configured maximum: then the combination is rejected and
  cardinality_rejected_total is incremented instead.
\<close>

definition record_value :: "Registry \<Rightarrow> string \<Rightarrow> labels \<Rightarrow> int \<Rightarrow> registry_error + Registry" where
  "record_value reg name ls v =
     (let k = (case kinds reg name of Some k \<Rightarrow> k | None \<Rightarrow> infer_kind reg name) in
      if has_series reg (name, sort ls)
      then Inr (reg\<lparr>all_series :=
                  map (\<lambda>s. if identity s = (name, sort ls) then fold_value s v else s)
                    (all_series reg)\<rparr>)
      else if max_cardinality reg < cardinality reg name + 1
      then Inr (reg\<lparr>cardinality_rejected_total := cardinality_rejected_total reg + 1\<rparr>)
      else Inr (reg\<lparr>kinds := (kinds reg)(name \<mapsto> k),
                   all_series := all_series reg @
                     [fold_value \<lparr>series_name = name, series_labels = sort ls, series_kind = k,
                                  series_value = 0, series_count = 0\<rparr> v]\<rparr>))"

text \<open>Modelled from the spec: a caller that records one sample after the other stops at an error.\<close>

fun record_all :: "Registry \<Rightarrow> (string \<times> labels \<times> int) list \<Rightarrow> registry_error + Registry" where
  "record_all reg [] = Inr reg"
| "record_all reg ((name, ls, v) # rest) =
     (case record_value reg name ls v of
        Inl e \<Rightarrow> Inl e
      | Inr reg' \<Rightarrow> record_all reg' rest)"

text \<open>
  Modelled from the spec: \<^verbatim>\<open>snapshot()\<close> returns a copy of all series values; the order
  of the copy is the order the registry happens to hold them in.
\<close>

definition snapshot :: "Registry \<Rightarrow> series list" where
  "snapshot reg = all_series reg"

section \<open>The metrics exporter\<close>

text \<open>
  Modelled from the spec: the exporter of the repository is not among the sources; the
  rendering follows section 4.3 of the specification and the sample response of the
  README. Numbers are written in decimal.
\<close>

function digits :: "nat \<Rightarrow> string" where
  "digits n =
     (if n < 10 then [char_of (48 + n)] else digits (n div 10) @ [char_of (48 + n mod 10)])"
  by pat_completeness auto
termination
  by (relation "measure id") auto

text \<open>Modelled from the spec: a value of a series as text.\<close>

definition show_int :: "int \<Rightarrow> string" where
  "show_int i = (if i < 0 then CHR ''-'' # digits (nat (- i)) else digits (nat i))"

text \<open>Modelled from the spec: the kind as the word of the type line.\<close>

definition show_kind :: "kind \<Rightarrow> string" where
  "show_kind k =
     (case k of Counter \<Rightarrow> ''counter'' | Gauge \<Rightarrow> ''gauge'' | Histogram \<Rightarrow> ''histogram'')"

text \<open>Modelled from the spec: the pieces of a line, joined by a separator.\<close>

fun intercalate :: "string \<Rightarrow> string list \<Rightarrow> string" where
  "intercalate sep [] = []"
| "intercalate sep [x] = x"
| "intercalate sep (x # y # ys) = x @ sep @ intercalate sep (y # ys)"

text \<open>
  Modelled from the spec: the label pairs of a series in lexicographic order, each as
  \<^verbatim>\<open>key="value"\<close>, in braces; nothing for a series without labels.
\<close>

definition render_labels :: "labels \<Rightarrow> string" where
  "render_labels ls =
     (if ls = [] then []
      else ''{'' @ intercalate '',''
                    (map (\<lambda>(k, v). k @ ''='' @ [CHR 0x22] @ v @ [CHR 0x22]) (sort ls)) @ ''}'')"

text \<open>
  Modelled from the spec: each series is written with its help and type preamble lines
  and then its sample line. The help text of a name is given from outside.
\<close>

definition render_series :: "(string \<Rightarrow> string) \<Rightarrow> series \<Rightarrow> string" where
  "render_series help s =
     ''# HELP '' @ series_name s @ '' '' @ help (series_name s) @ [CHR 0x0A]
     @ ''# TYPE '' @ series_name s @ '' '' @ show_kind (series_kind s) @ [CHR 0x0A]
     @ series_name s @ render_labels (series_labels s) @ '' '' @ show_int (series_value s)
     @ [CHR 0x0A]"

text \<open>
  Modelled from the spec: the series of a snapshot are sorted by name and then by their
  lexicographically sorted label pairs, and rendered in that order.
\<close>

definition exposition_order :: "series list \<Rightarrow> series list" where
  "exposition_order snap = sort_key identity snap"

text \<open>Modelled from the spec: the text exposition of a snapshot.\<close>

definition render :: "(string \<Rightarrow> string) \<Rightarrow> series list \<Rightarrow> string" where
  "render help snap = concat (map (render_series help) (exposition_order snap))"

section \<open>The certificate watcher\<close>

text \<open>
  Modelled from the spec: the certificate watcher is not among the sources (the README
  shows its two counters); the bundle, the validation and the reload follow sections 3 and
  4.4 of the specification. The pair on disk is two byte strings.
\<close>

record CertKeyPair =
  cert_bytes :: string
  key_bytes :: string

text \<open>
  Modelled from the spec: what validation reads of a parsed certificate: the public key
  it certifies and the end of its validity.
\<close>

record Certificate =
  public_key :: string
  not_after :: nat

text \<open>
  Modelled from the spec: the active bundle: certificate bytes, key bytes, load timestamp
  and generation counter.
\<close>

record CertificateBundle =
  certificate :: string
  private_key :: string
  load_timestamp :: nat
  generation :: nat

text \<open>
  Modelled from the spec: parsing X.509 and key material is outside the watcher and is
  given from outside: a parser answers nothing for bytes that are not well-formed, and
  for a key it answers the public key the private key belongs to.
\<close>

record parsers =
  parse_certificate :: "string \<Rightarrow> Certificate option"
  parse_key :: "string \<Rightarrow> string option"

text \<open>
  Modelled from the spec: a pair is valid when both parts are well-formed, the key
  matches the certificate and the certificate is not expired.
\<close>

definition validate_pair :: "parsers \<Rightarrow> nat \<Rightarrow> CertKeyPair \<Rightarrow> bool" where
  "validate_pair p now pair =
     (case parse_certificate p (cert_bytes pair) of
        None \<Rightarrow> False
      | Some c \<Rightarrow>
          (case parse_key p (key_bytes pair) of
             None \<Rightarrow> False
           | Some pub \<Rightarrow> pub = public_key c \<and> now \<le> not_after c))"

text \<open>
  Modelled from the spec: the watcher holds the active bundle (none before the first
  valid load) and the two counters the README shows.
\<close>

record CertWatcher =
  active :: "CertificateBundle option"
  certwatcher_read_certificate_total :: nat
  certwatcher_read_certificate_errors_total :: nat

text \<open>Modelled from the spec: the initial state, no valid bundle yet.\<close>

definition new_CertWatcher :: CertWatcher where
  "new_CertWatcher = \<lparr>active = None, certwatcher_read_certificate_total = 0,
                       certwatcher_read_certificate_errors_total = 0\<rparr>"

text \<open>
  Modelled from the spec: on a detected change, at a time and with the pair then on disk:
  if validation fails, increment the error counter and keep the bundle; on success swap in
  a new bundle with an incremented generation counter and increment the read counter.
\<close>

definition on_change :: "parsers \<Rightarrow> CertWatcher \<Rightarrow> nat \<times> CertKeyPair \<Rightarrow> CertWatcher" where
  "on_change p cw ev =
     (case ev of (now, pair) \<Rightarrow>
        if validate_pair p now pair
        then cw\<lparr>active := Some \<lparr>certificate = cert_bytes pair, private_key = key_bytes pair,
                                  load_timestamp = now,
                                  generation = (case active cw of None \<Rightarrow> 1
                                                | Some b \<Rightarrow> generation b + 1)\<rparr>,
                certwatcher_read_certificate_total :=
                  certwatcher_read_certificate_total cw + 1\<rparr>
        else cw\<lparr>certwatcher_read_certificate_errors_total :=
                  certwatcher_read_certificate_errors_total cw + 1\<rparr>)"

text \<open>Modelled from the spec: the bundle a reader is served, the current one.\<close>

definition current_bundle :: "CertWatcher \<Rightarrow> CertificateBundle option" where
  "current_bundle cw = active cw"

text \<open>Modelled from the spec: the watcher over a sequence of detected changes.\<close>

definition watch :: "parsers \<Rightarrow> CertWatcher \<Rightarrow> (nat \<times> CertKeyPair) list \<Rightarrow> CertWatcher" where
  "watch p cw evs = foldl (on_change p) cw evs"

text \<open>
  Modelled from the spec: a bundle is sound when its pair was valid at its load
  timestamp; what the watcher serves is sound when it serves nothing or a sound bundle.
\<close>

definition bundle_valid :: "parsers \<Rightarrow> CertificateBundle \<Rightarrow> bool" where
  "bundle_valid p b =
     validate_pair p (load_timestamp b) \<lparr>cert_bytes = certificate b, key_bytes = private_key b\<rparr>"

definition served_valid :: "parsers \<Rightarrow> CertWatcher \<Rightarrow> bool" where
  "served_valid p cw = (case current_bundle cw of None \<Rightarrow> True | Some b \<Rightarrow> bundle_valid p b)"

section \<open>Concrete inputs\<close>

text \<open>
  The resource \<^verbatim>\<open>demo/foo\<close> with the message of the README, before and after the first
  reconcile, and the request that names it.
\<close>

definition demo_foo :: Simple where
  "demo_foo = \<lparr>metadata = \<lparr>Namespace = ''demo'', Name = ''foo'', ResourceVersion = 1,
                            Generation = 1\<rparr>,
               Spec = \<lparr>Message = ''Hallo Welt!''\<rparr>,
               Status = \<lparr>Replied = False\<rparr>\<rparr>"

definition demo_foo_replied :: Simple where
  "demo_foo_replied = demo_foo\<lparr>Status := \<lparr>Replied = True\<rparr>\<rparr>"

definition cluster_of :: "Simple list \<Rightarrow> world" where
  "cluster_of objs = \<lparr>objects = map_of (map (\<lambda>obj. (key_of obj, obj)) objs), calls = [],
                      counters = (\<lambda>s. 0), histograms = (\<lambda>s. 0)\<rparr>"

definition req_foo :: Request where
  "req_foo = \<lparr>NamespacedName = (''demo'', ''foo'')\<rparr>"

definition reconcile_total :: "string \<Rightarrow> series_id" where
  "reconcile_total result = (''reconcile_total'', [(''result'', result)])"

definition reconcile_duration :: series_id where
  "reconcile_duration = (''reconcile_duration'', [])"

definition conflict_on_update :: faults where
  "conflict_on_update = \<lparr>get_fault = None, update_fault = Some Conflict\<rparr>"

definition demo_foo_doc :: Simple_doc where
  "demo_foo_doc = \<lparr>doc_metadata = metadata demo_foo,
                   doc_spec = Some \<lparr>doc_message = Some ''Hallo Welt!''\<rparr>,
                   doc_status = None\<rparr>"

text \<open>
  The sample response of the README: its three series, held in some order, their help
  texts, and the text of the response.
\<close>

definition readme_help :: "string \<Rightarrow> string" where
  "readme_help name =
     (if name = ''certwatcher_read_certificate_errors_total''
      then ''Total number of certificate read errors''
      else if name = ''certwatcher_read_certificate_total''
      then ''Total number of certificate reads''
      else ''Number of currently used workers per controller'')"

definition readme_snapshot :: "series list" where
  "readme_snapshot =
     [\<lparr>series_name = ''controller_runtime_active_workers'',
       series_labels = [(''controller'', ''simple'')], series_kind = Gauge,
       series_value = 0, series_count = 0\<rparr>,
      \<lparr>series_name = ''certwatcher_read_certificate_total'', series_labels = [],
       series_kind = Counter, series_value = 0, series_count = 0\<rparr>,
      \<lparr>series_name = ''certwatcher_read_certificate_errors_total'', series_labels = [],
       series_kind = Counter, series_value = 0, series_count = 0\<rparr>]"

definition readme_text :: string where
  "readme_text =
     ''# HELP certwatcher_read_certificate_errors_total Total number of certificate read errors''
       @ [CHR 0x0A] @
     ''# TYPE certwatcher_read_certificate_errors_total counter'' @ [CHR 0x0A] @
     ''certwatcher_read_certificate_errors_total 0'' @ [CHR 0x0A] @
     ''# HELP certwatcher_read_certificate_total Total number of certificate reads''
       @ [CHR 0x0A] @
     ''# TYPE certwatcher_read_certificate_total counter'' @ [CHR 0x0A] @
     ''certwatcher_read_certificate_total 0'' @ [CHR 0x0A] @
     ''# HELP controller_runtime_active_workers Number of currently used workers per controller''
       @ [CHR 0x0A] @
     ''# TYPE controller_runtime_active_workers gauge'' @ [CHR 0x0A] @
     ''controller_runtime_active_workers{controller='' @ [CHR 0x22] @ ''simple'' @ [CHR 0x22]
       @ ''} 0'' @ [CHR 0x0A]"

text \<open>
  A registry that allows two label combinations per name and holds two for
  \<^verbatim>\<open>hits\<close>.
\<close>

definition hits_registry :: Registry where
  "hits_registry =
     \<lparr>kinds = [''hits'' \<mapsto> Counter],
      all_series =
        [\<lparr>series_name = ''hits'', series_labels = [(''code'', ''200'')], series_kind = Counter,
          series_value = 6, series_count = 0\<rparr>,
         \<lparr>series_name = ''hits'', series_labels = [(''code'', ''404'')], series_kind = Counter,
          series_value = 1, series_count = 0\<rparr>],
      max_cardinality = 2, infer_kind = (\<lambda>n. Counter), cardinality_rejected_total = 0\<rparr>"

text \<open>
  Parsers that know one certificate, valid until time 100 for the key \<^verbatim>\<open>pub-A\<close>, and two
  private keys; a good pair and a pair whose key does not match.
\<close>

definition demo_parsers :: parsers where
  "demo_parsers =
     \<lparr>parse_certificate = (\<lambda>bytes. if bytes = ''cert-A''
                                     then Some \<lparr>public_key = ''pub-A'', not_after = 100\<rparr>
                                     else None),
      parse_key = (\<lambda>bytes. if bytes = ''key-A'' then Some ''pub-A''
                             else if bytes = ''key-B'' then Some ''pub-B'' else None)\<rparr>"

definition good_pair :: CertKeyPair where
  "good_pair = \<lparr>cert_bytes = ''cert-A'', key_bytes = ''key-A''\<rparr>"

definition bad_pair :: CertKeyPair where
  "bad_pair = \<lparr>cert_bytes = ''cert-A'', key_bytes = ''key-B''\<rparr>"

section \<open>Properties of Reconcile\<close>

lemma Get_snd: "snd (Get w f key) = w\<lparr>calls := calls w @ [CallGet key]\<rparr>"
  by (simp add: Get_def Let_def split: option.splits)

lemma Get_eq: "Get w f key = (fst (Get w f key), w\<lparr>calls := calls w @ [CallGet key]\<rparr>)"
  using Get_snd [of w f key] by (metis prod.collapse)

lemma StatusUpdate_calls:
  "calls (snd (StatusUpdate w f obj)) = calls w @ [CallStatusUpdate obj]"
  by (simp add: StatusUpdate_def Let_def split: option.splits)

lemma StatusUpdate_metrics:
  "counters (snd (StatusUpdate w f obj)) = counters w"
  "histograms (snd (StatusUpdate w f obj)) = histograms w"
  by (simp_all add: StatusUpdate_def Let_def split: option.splits)

lemma StatusUpdate_failed:
  "fst (StatusUpdate w f obj) = Some e \<Longrightarrow> objects (snd (StatusUpdate w f obj)) = objects w"
  by (simp add: StatusUpdate_def Let_def split: option.splits if_splits)

lemma StatusUpdate_done:
  assumes "fst (StatusUpdate w f obj) = None"
  shows "\<exists>cur. objects w (key_of obj) = Some cur
           \<and> objects (snd (StatusUpdate w f obj)) =
               (objects w)(key_of obj \<mapsto>
                  cur\<lparr>metadata := (metadata cur)\<lparr>ResourceVersion :=
                                      Suc (ResourceVersion (metadata cur))\<rparr>,
                      Status := Status obj\<rparr>)"
  using assms by (simp add: StatusUpdate_def Let_def split: option.splits if_splits)

lemma StatusUpdate_injected:
  "update_fault f = Some e \<Longrightarrow> fst (StatusUpdate w f obj) = Some e"
  by (simp add: StatusUpdate_def Let_def)

text \<open>The three ways through Reconcile, each as one equation.\<close>

lemma Reconcile_fetch_failed:
  assumes "fst (Get w f (NamespacedName req)) = Inl e"
  shows "Reconcile w f req =
           ((empty_Result, IgnoreNotFound (Some e)),
            w\<lparr>calls := calls w @ [CallGet (NamespacedName req)]\<rparr>)"
  using assms Get_eq [of w f "NamespacedName req"] by (simp add: Reconcile_def)

lemma Reconcile_already_replied:
  assumes "fst (Get w f (NamespacedName req)) = Inr obj" and "Replied (Status obj)"
  shows "Reconcile w f req =
           ((empty_Result, None),
            w\<lparr>calls := calls w @ [CallGet (NamespacedName req),
                 CallLogInfo ''Hallo Welt!''
                   [(''name'', Name (metadata obj)), (''message'', Message (Spec obj))]]\<rparr>)"
  using assms Get_eq [of w f "NamespacedName req"]
  by (simp add: Reconcile_def LogInfo_def)

lemma Reconcile_not_replied:
  assumes "fst (Get w f (NamespacedName req)) = Inr obj" and "\<not> Replied (Status obj)"
  shows "Reconcile w f req =
           ((empty_Result,
             fst (StatusUpdate
                    (w\<lparr>calls := calls w @ [CallGet (NamespacedName req),
                         CallLogInfo ''Hallo Welt!''
                           [(''name'', Name (metadata obj)), (''message'', Message (Spec obj))]]\<rparr>)
                    f (obj\<lparr>Status := (Status obj)\<lparr>Replied := True\<rparr>\<rparr>))),
            snd (StatusUpdate
                    (w\<lparr>calls := calls w @ [CallGet (NamespacedName req),
                         CallLogInfo ''Hallo Welt!''
                           [(''name'', Name (metadata obj)), (''message'', Message (Spec obj))]]\<rparr>)
                    f (obj\<lparr>Status := (Status obj)\<lparr>Replied := True\<rparr>\<rparr>)))"
  using assms Get_eq [of w f "NamespacedName req"]
  by (simp add: Reconcile_def LogInfo_def split: prod.splits option.splits)

lemma IgnoreNotFound_other: "e \<noteq> NotFound \<Longrightarrow> IgnoreNotFound (Some e) = Some e"
  by (cases e) simp_all

text \<open>
  C6. When the fetch fails with an error other than NotFound, Reconcile returns that
  error, makes no write call, and leaves the stored objects as they were.
\<close>

theorem Reconcile_fetch_error:
  assumes "fst (Get w f (NamespacedName req)) = Inl e" and "e \<noteq> NotFound"
  shows "snd (fst (Reconcile w f req)) = Some e
       \<and> writes w (snd (Reconcile w f req)) = []
       \<and> objects (snd (Reconcile w f req)) = objects w"
  using assms
  by (simp add: Reconcile_fetch_failed IgnoreNotFound_other writes_def new_calls_def)

theorem Reconcile_fetch_error_witness:
  "fst (Get (cluster_of [demo_foo]) \<lparr>get_fault = Some (ServerError ''timeout''), update_fault = None\<rparr>
          (NamespacedName req_foo)) = Inl (ServerError ''timeout'')
   \<and> ServerError ''timeout'' \<noteq> NotFound
   \<and> snd (fst (Reconcile (cluster_of [demo_foo])
                  \<lparr>get_fault = Some (ServerError ''timeout''), update_fault = None\<rparr> req_foo))
       = Some (ServerError ''timeout'')
   \<and> writes (cluster_of [demo_foo])
        (snd (Reconcile (cluster_of [demo_foo])
                \<lparr>get_fault = Some (ServerError ''timeout''), update_fault = None\<rparr> req_foo)) = []
   \<and> objects (snd (Reconcile (cluster_of [demo_foo])
                      \<lparr>get_fault = Some (ServerError ''timeout''), update_fault = None\<rparr> req_foo))
       = objects (cluster_of [demo_foo])"
proof -
  have h: "fst (Get (cluster_of [demo_foo])
                  \<lparr>get_fault = Some (ServerError ''timeout''), update_fault = None\<rparr>
                  (NamespacedName req_foo)) = Inl (ServerError ''timeout'')"
    by (simp add: Get_def)
  have n: "ServerError ''timeout'' \<noteq> NotFound" by simp
  show ?thesis using h n Reconcile_fetch_error [OF h n] by simp
qed


subsection \<open>Evaluation on the concrete cluster\<close>

lemma Get_demo_foo:
  "fst (Get (cluster_of [demo_foo]) f (NamespacedName req_foo)) =
     (case get_fault f of Some e \<Rightarrow> Inl e | None \<Rightarrow> Inr demo_foo)"
  by (simp add: Get_def cluster_of_def req_foo_def key_of_def demo_foo_def split: option.splits)

lemma Get_demo_foo_replied:
  "fst (Get (cluster_of [demo_foo_replied]) no_faults (NamespacedName req_foo)) =
     Inr demo_foo_replied"
  by (simp add: Get_def cluster_of_def req_foo_def key_of_def demo_foo_def demo_foo_replied_def
        no_faults_def)

lemma Get_empty_cluster:
  "fst (Get (cluster_of []) no_faults (NamespacedName req_foo)) = Inl NotFound"
  by (simp add: Get_def cluster_of_def no_faults_def)

lemma demo_foo_Replied: "\<not> Replied (Status demo_foo)" "Replied (Status demo_foo_replied)"
  by (simp_all add: demo_foo_def demo_foo_replied_def)

lemma cluster_of_metrics: "counters (cluster_of objs) s = 0" "histograms (cluster_of objs) s = 0"
  by (simp_all add: cluster_of_def)

subsection \<open>The replied record: no write\<close>

text \<open>
  C1 (amended). For every record that is fetched with status.replied already true, one
  Reconcile invocation makes no write call, leaves the stored objects as they were and
  returns without error; it records no metric: every counter and histogram is as before.
\<close>

theorem Reconcile_replied_no_write:
  assumes "fst (Get w f (NamespacedName req)) = Inr obj" and "Replied (Status obj)"
  shows "writes w (snd (Reconcile w f req)) = []
       \<and> objects (snd (Reconcile w f req)) = objects w
       \<and> fst (Reconcile w f req) = (empty_Result, None)
       \<and> counters (snd (Reconcile w f req)) = counters w
       \<and> histograms (snd (Reconcile w f req)) = histograms w"
  using assms by (simp add: Reconcile_already_replied writes_def new_calls_def)

theorem Reconcile_replied_no_write_witness:
  "fst (Get (cluster_of [demo_foo_replied]) no_faults (NamespacedName req_foo)) = Inr demo_foo_replied
   \<and> Replied (Status demo_foo_replied)
   \<and> writes (cluster_of [demo_foo_replied])
        (snd (Reconcile (cluster_of [demo_foo_replied]) no_faults req_foo)) = []
   \<and> objects (snd (Reconcile (cluster_of [demo_foo_replied]) no_faults req_foo))
       = objects (cluster_of [demo_foo_replied])
   \<and> fst (Reconcile (cluster_of [demo_foo_replied]) no_faults req_foo) = (empty_Result, None)"
  using Reconcile_replied_no_write [OF Get_demo_foo_replied demo_foo_Replied(2)]
    Get_demo_foo_replied demo_foo_Replied(2)
  by simp

text \<open>
  C1 as stated asks for one increment of reconcile_total with result "skipped". On the
  cluster that holds the replied \<^verbatim>\<open>demo/foo\<close> the counter is the same after the
  invocation as before it.
\<close>

theorem Reconcile_skipped_counter_counterexample:
  "fst (Get (cluster_of [demo_foo_replied]) no_faults (NamespacedName req_foo)) = Inr demo_foo_replied
   \<and> Replied (Status demo_foo_replied)
   \<and> counters (snd (Reconcile (cluster_of [demo_foo_replied]) no_faults req_foo))
        (reconcile_total ''skipped'')
       \<noteq> counters (cluster_of [demo_foo_replied]) (reconcile_total ''skipped'') + 1"
  by (simp add: Get_demo_foo_replied demo_foo_Replied
        Reconcile_already_replied [OF Get_demo_foo_replied demo_foo_Replied(2)]
        cluster_of_metrics)

subsection \<open>The record that is not yet replied: one write\<close>

text \<open>
  C2 (amended). For every record that is fetched with status.replied false, one Reconcile
  invocation makes exactly one write call, a status update that carries replied = true.
  When Reconcile returns without error the stored record has replied = true and its spec
  as stored before; when it returns an error the stored objects are as they were. It
  records no metric: every counter and histogram is as before.
\<close>

theorem Reconcile_sets_replied_once:
  assumes "fst (Get w f (NamespacedName req)) = Inr obj" and "\<not> Replied (Status obj)"
  shows "writes w (snd (Reconcile w f req)) =
           [CallStatusUpdate (obj\<lparr>Status := (Status obj)\<lparr>Replied := True\<rparr>\<rparr>)]
       \<and> (snd (fst (Reconcile w f req)) = None \<longrightarrow>
            (\<exists>old new. objects w (key_of obj) = Some old
                \<and> objects (snd (Reconcile w f req)) (key_of obj) = Some new
                \<and> Replied (Status new) \<and> Spec new = Spec old))
       \<and> (snd (fst (Reconcile w f req)) \<noteq> None \<longrightarrow>
            objects (snd (Reconcile w f req)) = objects w)
       \<and> counters (snd (Reconcile w f req)) = counters w
       \<and> histograms (snd (Reconcile w f req)) = histograms w"
proof -
  let ?w2 = "w\<lparr>calls := calls w @ [CallGet (NamespacedName req),
                 CallLogInfo ''Hallo Welt!''
                   [(''name'', Name (metadata obj)), (''message'', Message (Spec obj))]]\<rparr>"
  let ?obj = "obj\<lparr>Status := (Status obj)\<lparr>Replied := True\<rparr>\<rparr>"
  have r: "Reconcile w f req = ((empty_Result, fst (StatusUpdate ?w2 f ?obj)),
                                snd (StatusUpdate ?w2 f ?obj))"
    using assms by (rule Reconcile_not_replied)
  have k: "key_of ?obj = key_of obj"
    by (simp add: key_of_def)
  have a: "writes w (snd (Reconcile w f req)) = [CallStatusUpdate ?obj]"
    by (simp add: r StatusUpdate_calls writes_def new_calls_def)
  have b: "snd (fst (Reconcile w f req)) = None \<longrightarrow>
            (\<exists>old new. objects w (key_of obj) = Some old
                \<and> objects (snd (Reconcile w f req)) (key_of obj) = Some new
                \<and> Replied (Status new) \<and> Spec new = Spec old)"
  proof
    assume "snd (fst (Reconcile w f req)) = None"
    then have "fst (StatusUpdate ?w2 f ?obj) = None"
      by (simp add: r)
    from StatusUpdate_done [OF this] k show
      "\<exists>old new. objects w (key_of obj) = Some old
          \<and> objects (snd (Reconcile w f req)) (key_of obj) = Some new
          \<and> Replied (Status new) \<and> Spec new = Spec old"
      by (auto simp: r)
  qed
  have c: "snd (fst (Reconcile w f req)) \<noteq> None \<longrightarrow>
            objects (snd (Reconcile w f req)) = objects w"
    using StatusUpdate_failed [of ?w2 f ?obj] by (auto simp: r)
  have d: "counters (snd (Reconcile w f req)) = counters w"
          "histograms (snd (Reconcile w f req)) = histograms w"
    by (simp_all add: r StatusUpdate_metrics)
  from a b c d show ?thesis by blast
qed


lemma Reconcile_demo_foo_result:
  "snd (fst (Reconcile (cluster_of [demo_foo]) f req_foo)) =
     (case get_fault f of
        Some e \<Rightarrow> IgnoreNotFound (Some e)
      | None \<Rightarrow> update_fault f)"
  by (simp add: Reconcile_def Get_def StatusUpdate_def LogInfo_def Let_def cluster_of_def
        req_foo_def key_of_def demo_foo_def split: option.splits)

theorem Reconcile_sets_replied_once_witness:
  "fst (Get (cluster_of [demo_foo]) no_faults (NamespacedName req_foo)) = Inr demo_foo
   \<and> \<not> Replied (Status demo_foo)
   \<and> snd (fst (Reconcile (cluster_of [demo_foo]) no_faults req_foo)) = None
   \<and> writes (cluster_of [demo_foo]) (snd (Reconcile (cluster_of [demo_foo]) no_faults req_foo))
       = [CallStatusUpdate demo_foo_replied]
   \<and> (\<exists>old new. objects (cluster_of [demo_foo]) (key_of demo_foo) = Some old
         \<and> objects (snd (Reconcile (cluster_of [demo_foo]) no_faults req_foo)) (key_of demo_foo)
             = Some new
         \<and> Replied (Status new) \<and> Spec new = Spec old)"
proof -
  have g: "fst (Get (cluster_of [demo_foo]) no_faults (NamespacedName req_foo)) = Inr demo_foo"
    by (simp add: Get_demo_foo no_faults_def)
  have ok: "snd (fst (Reconcile (cluster_of [demo_foo]) no_faults req_foo)) = None"
    by (simp add: Reconcile_demo_foo_result no_faults_def)
  have o: "demo_foo\<lparr>Status := (Status demo_foo)\<lparr>Replied := True\<rparr>\<rparr> = demo_foo_replied"
    by (simp add: demo_foo_def demo_foo_replied_def)
  show ?thesis
    using Reconcile_sets_replied_once [OF g demo_foo_Replied(1)] g ok o demo_foo_Replied(1)
    by simp
qed

text \<open>
  C2 as stated asks for one increment of reconcile_total with result "updated" and one
  observation of reconcile_duration. On the cluster that holds the fresh \<^verbatim>\<open>demo/foo\<close> the
  write succeeds, and both series are the same after the invocation as before it.
\<close>

theorem Reconcile_updated_counter_counterexample:
  "fst (Get (cluster_of [demo_foo]) no_faults (NamespacedName req_foo)) = Inr demo_foo
   \<and> \<not> Replied (Status demo_foo)
   \<and> snd (fst (Reconcile (cluster_of [demo_foo]) no_faults req_foo)) = None
   \<and> counters (snd (Reconcile (cluster_of [demo_foo]) no_faults req_foo))
        (reconcile_total ''updated'')
       \<noteq> counters (cluster_of [demo_foo]) (reconcile_total ''updated'') + 1
   \<and> histograms (snd (Reconcile (cluster_of [demo_foo]) no_faults req_foo)) reconcile_duration
       \<noteq> histograms (cluster_of [demo_foo]) reconcile_duration + 1"
proof -
  have g: "fst (Get (cluster_of [demo_foo]) no_faults (NamespacedName req_foo)) = Inr demo_foo"
    by (simp add: Get_demo_foo no_faults_def)
  have ok: "snd (fst (Reconcile (cluster_of [demo_foo]) no_faults req_foo)) = None"
    by (simp add: Reconcile_demo_foo_result no_faults_def)
  have m: "counters (snd (Reconcile (cluster_of [demo_foo]) no_faults req_foo)) s = 0"
          "histograms (snd (Reconcile (cluster_of [demo_foo]) no_faults req_foo)) s = 0" for s
    by (simp_all add: Reconcile_not_replied [OF g demo_foo_Replied(1)] StatusUpdate_metrics
          cluster_of_metrics)
  show ?thesis
    using g ok demo_foo_Replied(1) by (simp add: m cluster_of_metrics)
qed

subsection \<open>A conflicting write\<close>

text \<open>
  C4 (amended). When the status write fails with a version conflict, Reconcile neither
  fetches again nor retries within the invocation: after its one fetch and its one write
  attempt it returns the conflict to the caller at once, and the stored objects are as
  they were. Retrying is left to the caller.
\<close>

theorem Reconcile_conflict_returned_at_once:
  assumes "fst (Get w f (NamespacedName req)) = Inr obj" and "\<not> Replied (Status obj)"
    and "update_fault f = Some Conflict"
  shows "fst (Reconcile w f req) = (empty_Result, Some Conflict)
       \<and> new_calls w (snd (Reconcile w f req)) =
           [CallGet (NamespacedName req),
            CallLogInfo ''Hallo Welt!''
              [(''name'', Name (metadata obj)), (''message'', Message (Spec obj))],
            CallStatusUpdate (obj\<lparr>Status := (Status obj)\<lparr>Replied := True\<rparr>\<rparr>)]
       \<and> objects (snd (Reconcile w f req)) = objects w"
  using assms(3)
  by (simp add: Reconcile_not_replied [OF assms(1,2)] StatusUpdate_injected StatusUpdate_calls
        StatusUpdate_failed new_calls_def)

theorem Reconcile_conflict_returned_at_once_witness:
  "fst (Get (cluster_of [demo_foo]) conflict_on_update (NamespacedName req_foo)) = Inr demo_foo
   \<and> \<not> Replied (Status demo_foo)
   \<and> update_fault conflict_on_update = Some Conflict
   \<and> fst (Reconcile (cluster_of [demo_foo]) conflict_on_update req_foo)
       = (empty_Result, Some Conflict)
   \<and> objects (snd (Reconcile (cluster_of [demo_foo]) conflict_on_update req_foo))
       = objects (cluster_of [demo_foo])"
proof -
  have g: "fst (Get (cluster_of [demo_foo]) conflict_on_update (NamespacedName req_foo))
             = Inr demo_foo"
    by (simp add: Get_demo_foo conflict_on_update_def)
  have u: "update_fault conflict_on_update = Some Conflict"
    by (simp add: conflict_on_update_def)
  show ?thesis
    using Reconcile_conflict_returned_at_once [OF g demo_foo_Replied(1) u] g u
      demo_foo_Replied(1)
    by simp
qed

text \<open>
  C4 as stated asks for a second fetch and further write attempts before the failure is
  reported. On the fresh \<^verbatim>\<open>demo/foo\<close> with a conflicting write, the invocation ends with the
  conflict after one fetch and one write attempt.
\<close>

theorem Reconcile_conflict_retry_counterexample:
  "update_fault conflict_on_update = Some Conflict
   \<and> snd (fst (Reconcile (cluster_of [demo_foo]) conflict_on_update req_foo)) = Some Conflict
   \<and> length (filter is_get
        (new_calls (cluster_of [demo_foo])
           (snd (Reconcile (cluster_of [demo_foo]) conflict_on_update req_foo)))) = 1
   \<and> length (writes (cluster_of [demo_foo])
        (snd (Reconcile (cluster_of [demo_foo]) conflict_on_update req_foo))) = 1"
proof -
  have g: "fst (Get (cluster_of [demo_foo]) conflict_on_update (NamespacedName req_foo))
             = Inr demo_foo"
    by (simp add: Get_demo_foo conflict_on_update_def)
  have u: "update_fault conflict_on_update = Some Conflict"
    by (simp add: conflict_on_update_def)
  show ?thesis
    by (simp add: u Reconcile_not_replied [OF g demo_foo_Replied(1)] StatusUpdate_injected
          StatusUpdate_calls writes_def new_calls_def)
qed

subsection \<open>The absent record\<close>

text \<open>
  C5 (amended). For every request whose fetch answers NotFound, as it does for a record
  that is absent from the store, Reconcile returns without error and makes no write call;
  the stored objects are as they were, and it records no metric: every counter and
  histogram is as before.
\<close>

theorem Reconcile_not_found_ignored:
  assumes "fst (Get w f (NamespacedName req)) = Inl NotFound"
  shows "fst (Reconcile w f req) = (empty_Result, None)
       \<and> writes w (snd (Reconcile w f req)) = []
       \<and> objects (snd (Reconcile w f req)) = objects w
       \<and> counters (snd (Reconcile w f req)) = counters w
       \<and> histograms (snd (Reconcile w f req)) = histograms w"
  by (simp add: Reconcile_fetch_failed [OF assms] writes_def new_calls_def)

theorem Reconcile_not_found_ignored_witness:
  "objects (cluster_of []) (NamespacedName req_foo) = None
   \<and> fst (Get (cluster_of []) no_faults (NamespacedName req_foo)) = Inl NotFound
   \<and> fst (Reconcile (cluster_of []) no_faults req_foo) = (empty_Result, None)
   \<and> writes (cluster_of []) (snd (Reconcile (cluster_of []) no_faults req_foo)) = []
   \<and> objects (snd (Reconcile (cluster_of []) no_faults req_foo)) = objects (cluster_of [])"
  using Reconcile_not_found_ignored [OF Get_empty_cluster] Get_empty_cluster
  by (simp add: cluster_of_def)

text \<open>
  C5 as stated asks for one increment of reconcile_total with result "not_found". On the
  empty cluster the counter is the same after the invocation as before it.
\<close>

theorem Reconcile_not_found_counter_counterexample:
  "objects (cluster_of []) (NamespacedName req_foo) = None
   \<and> fst (Reconcile (cluster_of []) no_faults req_foo) = (empty_Result, None)
   \<and> counters (snd (Reconcile (cluster_of []) no_faults req_foo)) (reconcile_total ''not_found'')
       \<noteq> counters (cluster_of []) (reconcile_total ''not_found'') + 1"
  by (simp add: Reconcile_fetch_failed [OF Get_empty_cluster] cluster_of_metrics)
     (simp add: cluster_of_def)


subsection \<open>Replied is set once\<close>

lemma Reconcile_store:
  "objects (snd (Reconcile w f req)) = objects w
   \<or> (\<exists>k old. objects w k = Some old
         \<and> objects (snd (Reconcile w f req)) =
             (objects w)(k \<mapsto>
                old\<lparr>metadata := (metadata old)\<lparr>ResourceVersion :=
                                    Suc (ResourceVersion (metadata old))\<rparr>,
                    Status := \<lparr>Replied = True\<rparr>\<rparr>))"
proof (cases "fst (Get w f (NamespacedName req))")
  case (Inl e)
  then show ?thesis by (simp add: Reconcile_fetch_failed)
next
  case (Inr obj)
  show ?thesis
  proof (cases "Replied (Status obj)")
    case True
    with Inr show ?thesis by (simp add: Reconcile_already_replied)
  next
    case False
    let ?w2 = "w\<lparr>calls := calls w @ [CallGet (NamespacedName req),
                   CallLogInfo ''Hallo Welt!''
                     [(''name'', Name (metadata obj)), (''message'', Message (Spec obj))]]\<rparr>"
    let ?obj = "obj\<lparr>Status := (Status obj)\<lparr>Replied := True\<rparr>\<rparr>"
    have r: "snd (Reconcile w f req) = snd (StatusUpdate ?w2 f ?obj)"
      by (simp add: Reconcile_not_replied [OF Inr False])
    have st: "Status ?obj = \<lparr>Replied = True\<rparr>"
      by simp
    show ?thesis
    proof (cases "fst (StatusUpdate ?w2 f ?obj)")
      case None
      from StatusUpdate_done [OF this] obtain cur where
        "objects w (key_of ?obj) = Some cur"
        "objects (snd (Reconcile w f req)) =
           (objects w)(key_of ?obj \<mapsto>
              cur\<lparr>metadata := (metadata cur)\<lparr>ResourceVersion :=
                                  Suc (ResourceVersion (metadata cur))\<rparr>,
                  Status := \<lparr>Replied = True\<rparr>\<rparr>)"
        unfolding r st by auto
      then show ?thesis by blast
    next
      case (Some e)
      from StatusUpdate_failed [OF this] show ?thesis
        by (simp add: r)
    qed
  qed
qed

lemma Reconcile_replied_mono:
  "replied_of w k \<Longrightarrow> replied_of (snd (Reconcile w f req)) k"
  using Reconcile_store [of w f req] by (auto simp: replied_of_def)

lemma Reconcile_keeps_spec:
  assumes "objects w k = Some old"
  shows "\<exists>new. objects (snd (Reconcile w f req)) k = Some new
           \<and> Spec new = Spec old \<and> key_of new = key_of old
           \<and> Generation (metadata new) = Generation (metadata old)"
  using Reconcile_store [of w f req] assms by (auto simp: key_of_def)

lemma flips_after_replied: "replied_of w k \<Longrightarrow> flips k g w (run w fs req) = 0"
  by (induction fs arbitrary: w) (simp_all add: Reconcile_replied_mono)

lemma flips_at_most_once: "flips k g w (run w fs req) \<le> 1"
proof (induction fs arbitrary: w)
  case Nil
  show ?case by simp
next
  case (Cons f fs)
  show ?case
  proof (cases "replied_of (snd (Reconcile w f req)) k")
    case True
    then show ?thesis by (simp add: flips_after_replied)
  next
    case False
    with Cons.IH [of "snd (Reconcile w f req)"] show ?thesis by simp
  qed
qed

text \<open>
  C3. Across every sequence of Reconcile invocations for one record, whatever failures
  of the store each invocation meets, the record goes from not replied to replied at most
  once in each generation; and an invocation that fetches the record with replied = true
  makes no write call and leaves the stored objects as they were.
\<close>

theorem replied_set_at_most_once:
  "flips (NamespacedName req) g w (run w fs req) \<le> 1
   \<and> (fst (Get w f (NamespacedName req)) = Inr obj \<and> Replied (Status obj) \<longrightarrow>
        writes w (snd (Reconcile w f req)) = []
        \<and> objects (snd (Reconcile w f req)) = objects w)"
  using flips_at_most_once [of "NamespacedName req" g w fs req]
  by (simp add: Reconcile_already_replied writes_def new_calls_def)

lemma run_demo_foo:
  "map (\<lambda>w. (replied_of w (NamespacedName req_foo), generation_of w (NamespacedName req_foo)))
     (run (cluster_of [demo_foo]) [conflict_on_update, no_faults, no_faults] req_foo)
   = [(False, 1), (True, 1), (True, 1)]"
  by (simp add: Reconcile_def Get_def StatusUpdate_def LogInfo_def Let_def cluster_of_def
        req_foo_def key_of_def demo_foo_def conflict_on_update_def no_faults_def
        replied_of_def generation_of_def)

theorem replied_set_at_most_once_witness:
  "map (\<lambda>w. (replied_of w (NamespacedName req_foo), generation_of w (NamespacedName req_foo)))
     (run (cluster_of [demo_foo]) [conflict_on_update, no_faults, no_faults] req_foo)
   = [(False, 1), (True, 1), (True, 1)]
   \<and> flips (NamespacedName req_foo) 1 (cluster_of [demo_foo])
       (run (cluster_of [demo_foo]) [conflict_on_update, no_faults, no_faults] req_foo) \<le> 1
   \<and> fst (Get (cluster_of [demo_foo_replied]) no_faults (NamespacedName req_foo))
       = Inr demo_foo_replied
   \<and> Replied (Status demo_foo_replied)
   \<and> writes (cluster_of [demo_foo_replied])
        (snd (Reconcile (cluster_of [demo_foo_replied]) no_faults req_foo)) = []
   \<and> objects (snd (Reconcile (cluster_of [demo_foo_replied]) no_faults req_foo))
       = objects (cluster_of [demo_foo_replied])"
proof -
  have "flips (NamespacedName req_foo) 1 (cluster_of [demo_foo])
          (run (cluster_of [demo_foo]) [conflict_on_update, no_faults, no_faults] req_foo) \<le> 1"
    using replied_set_at_most_once
            [where req = req_foo and g = 1 and w = "cluster_of [demo_foo]"
               and fs = "[conflict_on_update, no_faults, no_faults]"]
    by blast
  moreover have "writes (cluster_of [demo_foo_replied])
        (snd (Reconcile (cluster_of [demo_foo_replied]) no_faults req_foo)) = []
     \<and> objects (snd (Reconcile (cluster_of [demo_foo_replied]) no_faults req_foo))
         = objects (cluster_of [demo_foo_replied])"
    using replied_set_at_most_once
            [where req = req_foo and w = "cluster_of [demo_foo_replied]" and f = no_faults
               and obj = demo_foo_replied]
      Get_demo_foo_replied demo_foo_Replied(2)
    by blast
  ultimately show ?thesis
    using run_demo_foo Get_demo_foo_replied demo_foo_Replied(2) by simp
qed


subsection \<open>The schema\<close>

lemma decode_encode_Simple: "decode_Simple (encode_Simple obj) = obj"
  by (cases "Replied (Status obj)")
     (simp_all add: decode_Simple_def encode_Simple_def decode_SimpleSpec_def
        decode_SimpleStatus_def encode_SimpleStatus_def)

text \<open>What a status update answers and stores does not depend on the trace of calls.\<close>

lemma StatusUpdate_trace_free:
  "fst (StatusUpdate (w\<lparr>calls := cs\<rparr>) f obj) = fst (StatusUpdate w f obj)"
  "objects (snd (StatusUpdate (w\<lparr>calls := cs\<rparr>) f obj)) = objects (snd (StatusUpdate w f obj))"
  by (simp_all add: StatusUpdate_def Let_def split: option.splits)

text \<open>
  The write of Reconcile is the status subresource update of the fetched object with
  replied set: its one write call, its answer and its effect on the store.
\<close>

lemma Reconcile_writes_through_status:
  assumes "fst (Get w f (NamespacedName req)) = Inr fetched" and "\<not> Replied (Status fetched)"
  shows "writes w (snd (Reconcile w f req)) =
           [CallStatusUpdate (fetched\<lparr>Status := (Status fetched)\<lparr>Replied := True\<rparr>\<rparr>)]"
    and "snd (fst (Reconcile w f req)) =
           fst (StatusUpdate w f (fetched\<lparr>Status := (Status fetched)\<lparr>Replied := True\<rparr>\<rparr>))"
    and "objects (snd (Reconcile w f req)) =
           objects (snd (StatusUpdate w f
                      (fetched\<lparr>Status := (Status fetched)\<lparr>Replied := True\<rparr>\<rparr>)))"
  by (simp_all add: Reconcile_not_replied [OF assms] StatusUpdate_calls StatusUpdate_trace_free
        writes_def new_calls_def)

lemma Reconcile_status_written:
  assumes "fst (Get w f (NamespacedName req)) = Inr fetched" and "\<not> Replied (Status fetched)"
    and "snd (fst (Reconcile w f req)) = None"
  shows "\<exists>old. objects w (key_of fetched) = Some old
           \<and> objects (snd (Reconcile w f req)) =
               (objects w)(key_of fetched \<mapsto>
                  old\<lparr>metadata := (metadata old)\<lparr>ResourceVersion :=
                                      Suc (ResourceVersion (metadata old))\<rparr>,
                      Status := \<lparr>Replied = True\<rparr>\<rparr>)"
proof -
  let ?obj = "fetched\<lparr>Status := (Status fetched)\<lparr>Replied := True\<rparr>\<rparr>"
  have k: "key_of ?obj = key_of fetched"
    by (simp add: key_of_def)
  have st: "Status ?obj = \<lparr>Replied = True\<rparr>"
    by simp
  have "fst (StatusUpdate w f ?obj) = None"
    using Reconcile_writes_through_status(2) [OF assms(1,2)] assms(3) by simp
  from StatusUpdate_done [OF this] show ?thesis
    unfolding Reconcile_writes_through_status(3) [OF assms(1,2)] k st .
qed

text \<open>
  C7. Every resource the schema admits has a message of length at least 1: a document
  without spec, without message or with the empty message is refused. Its status.replied
  is the boolean of the document, and false when the status or the field is absent, so
  that a resource written with the field left out reads back as it was. Replied is
  written through the status subresource: for a record fetched with replied false,
  Reconcile makes exactly one write call, the status update of the fetched object with
  replied set to true; its answer and its effect on the store are those of that status
  update, and when it succeeds the stored object is the one stored before with its status
  replaced by replied = true and its resource version advanced. Whatever Reconcile does,
  the spec, the identity and the generation of every stored object stay as they were.
\<close>

theorem Simple_schema:
  "(admit d = Inr obj \<longrightarrow>
      1 \<le> length (Message (Spec obj))
      \<and> Replied (Status obj) =
          (case doc_status d of None \<Rightarrow> False
           | Some st \<Rightarrow> (case doc_replied st of None \<Rightarrow> False | Some b \<Rightarrow> b)))
   \<and> ((doc_spec d = None \<or> doc_spec d = Some \<lparr>doc_message = None\<rparr>
        \<or> doc_spec d = Some \<lparr>doc_message = Some []\<rparr>) \<longrightarrow> (\<exists>e. admit d = Inl e))
   \<and> decode_Simple (encode_Simple obj') = obj'
   \<and> (objects w k = Some old \<longrightarrow>
        (\<exists>new. objects (snd (Reconcile w f req)) k = Some new
           \<and> Spec new = Spec old \<and> key_of new = key_of old
           \<and> Generation (metadata new) = Generation (metadata old)))
   \<and> (fst (Get w f (NamespacedName req)) = Inr fetched \<and> \<not> Replied (Status fetched) \<longrightarrow>
        writes w (snd (Reconcile w f req)) =
          [CallStatusUpdate (fetched\<lparr>Status := (Status fetched)\<lparr>Replied := True\<rparr>\<rparr>)]
        \<and> snd (fst (Reconcile w f req)) =
            fst (StatusUpdate w f (fetched\<lparr>Status := (Status fetched)\<lparr>Replied := True\<rparr>\<rparr>))
        \<and> objects (snd (Reconcile w f req)) =
            objects (snd (StatusUpdate w f
                       (fetched\<lparr>Status := (Status fetched)\<lparr>Replied := True\<rparr>\<rparr>)))
        \<and> (snd (fst (Reconcile w f req)) = None \<longrightarrow>
             (\<exists>stored. objects w (key_of fetched) = Some stored
                \<and> objects (snd (Reconcile w f req)) =
                    (objects w)(key_of fetched \<mapsto>
                       stored\<lparr>metadata := (metadata stored)\<lparr>ResourceVersion :=
                                               Suc (ResourceVersion (metadata stored))\<rparr>,
                              Status := \<lparr>Replied = True\<rparr>\<rparr>))))"
proof -
  have a: "admit d = Inr obj \<longrightarrow>
      1 \<le> length (Message (Spec obj))
      \<and> Replied (Status obj) =
          (case doc_status d of None \<Rightarrow> False
           | Some st \<Rightarrow> (case doc_replied st of None \<Rightarrow> False | Some b \<Rightarrow> b))"
    by (auto simp: admit_def validate_Simple_def validate_SimpleSpec_def decode_Simple_def
          decode_SimpleSpec_def decode_SimpleStatus_def Suc_le_eq
        split: option.splits if_splits)
  have b: "(doc_spec d = None \<or> doc_spec d = Some \<lparr>doc_message = None\<rparr>
        \<or> doc_spec d = Some \<lparr>doc_message = Some []\<rparr>) \<longrightarrow> (\<exists>e. admit d = Inl e)"
    by (auto simp: admit_def validate_Simple_def validate_SimpleSpec_def)
  have c: "objects w k = Some old \<longrightarrow>
        (\<exists>new. objects (snd (Reconcile w f req)) k = Some new
           \<and> Spec new = Spec old \<and> key_of new = key_of old
           \<and> Generation (metadata new) = Generation (metadata old))"
    using Reconcile_keeps_spec [of w k old f req] by blast
  have e: "fst (Get w f (NamespacedName req)) = Inr fetched \<and> \<not> Replied (Status fetched) \<longrightarrow>
        writes w (snd (Reconcile w f req)) =
          [CallStatusUpdate (fetched\<lparr>Status := (Status fetched)\<lparr>Replied := True\<rparr>\<rparr>)]
        \<and> snd (fst (Reconcile w f req)) =
            fst (StatusUpdate w f (fetched\<lparr>Status := (Status fetched)\<lparr>Replied := True\<rparr>\<rparr>))
        \<and> objects (snd (Reconcile w f req)) =
            objects (snd (StatusUpdate w f
                       (fetched\<lparr>Status := (Status fetched)\<lparr>Replied := True\<rparr>\<rparr>)))
        \<and> (snd (fst (Reconcile w f req)) = None \<longrightarrow>
             (\<exists>stored. objects w (key_of fetched) = Some stored
                \<and> objects (snd (Reconcile w f req)) =
                    (objects w)(key_of fetched \<mapsto>
                       stored\<lparr>metadata := (metadata stored)\<lparr>ResourceVersion :=
                                               Suc (ResourceVersion (metadata stored))\<rparr>,
                              Status := \<lparr>Replied = True\<rparr>\<rparr>)))"
    using Reconcile_writes_through_status [of w f req fetched]
      Reconcile_status_written [of w f req fetched]
    by blast
  from a b c e decode_encode_Simple [of obj'] show ?thesis
    by blast
qed

theorem Simple_schema_witness:
  "admit demo_foo_doc = Inr demo_foo
   \<and> 1 \<le> length (Message (Spec demo_foo)) \<and> \<not> Replied (Status demo_foo)
   \<and> doc_spec (demo_foo_doc\<lparr>doc_spec := Some \<lparr>doc_message = Some []\<rparr>\<rparr>)
       = Some \<lparr>doc_message = Some []\<rparr>
   \<and> (\<exists>e. admit (demo_foo_doc\<lparr>doc_spec := Some \<lparr>doc_message = Some []\<rparr>\<rparr>) = Inl e)
   \<and> objects (cluster_of [demo_foo]) (''demo'', ''foo'') = Some demo_foo
   \<and> (\<exists>new. objects (snd (Reconcile (cluster_of [demo_foo]) no_faults req_foo)) (''demo'', ''foo'')
              = Some new
          \<and> Spec new = Spec demo_foo \<and> key_of new = key_of demo_foo
          \<and> Generation (metadata new) = Generation (metadata demo_foo))
   \<and> fst (Get (cluster_of [demo_foo]) no_faults (NamespacedName req_foo)) = Inr demo_foo
   \<and> writes (cluster_of [demo_foo]) (snd (Reconcile (cluster_of [demo_foo]) no_faults req_foo))
       = [CallStatusUpdate demo_foo_replied]
   \<and> snd (fst (Reconcile (cluster_of [demo_foo]) no_faults req_foo)) = None
   \<and> objects (snd (Reconcile (cluster_of [demo_foo]) no_faults req_foo)) (''demo'', ''foo'')
       = Some \<lparr>metadata = \<lparr>Namespace = ''demo'', Name = ''foo'', ResourceVersion = 2,
                            Generation = 1\<rparr>,
               Spec = \<lparr>Message = ''Hallo Welt!''\<rparr>,
               Status = \<lparr>Replied = True\<rparr>\<rparr>"
proof -
  have a: "admit demo_foo_doc = Inr demo_foo"
    by (simp add: admit_def validate_Simple_def validate_SimpleSpec_def decode_Simple_def
          decode_SimpleSpec_def demo_foo_doc_def demo_foo_def)
  have b: "doc_spec (demo_foo_doc\<lparr>doc_spec := Some \<lparr>doc_message = Some []\<rparr>\<rparr>)
             = Some \<lparr>doc_message = Some []\<rparr>"
    by simp
  have c: "objects (cluster_of [demo_foo]) (''demo'', ''foo'') = Some demo_foo"
    by (simp add: cluster_of_def key_of_def demo_foo_def)
  have g: "fst (Get (cluster_of [demo_foo]) no_faults (NamespacedName req_foo)) = Inr demo_foo"
    by (simp add: Get_demo_foo no_faults_def)
  have ok: "snd (fst (Reconcile (cluster_of [demo_foo]) no_faults req_foo)) = None"
    by (simp add: Reconcile_demo_foo_result no_faults_def)
  have o: "demo_foo\<lparr>Status := (Status demo_foo)\<lparr>Replied := True\<rparr>\<rparr> = demo_foo_replied"
    by (simp add: demo_foo_def demo_foo_replied_def)
  have k: "key_of demo_foo = (''demo'', ''foo'')"
    by (simp add: key_of_def demo_foo_def)
  have schema: "1 \<le> length (Message (Spec demo_foo)) \<and> \<not> Replied (Status demo_foo)"
    using Simple_schema [where d = demo_foo_doc and obj = demo_foo] a
    by (simp add: demo_foo_doc_def)
  have refused: "\<exists>e. admit (demo_foo_doc\<lparr>doc_spec := Some \<lparr>doc_message = Some []\<rparr>\<rparr>) = Inl e"
    using Simple_schema [where d = "demo_foo_doc\<lparr>doc_spec := Some \<lparr>doc_message = Some []\<rparr>\<rparr>"] b
    by blast
  note at_demo =
    Simple_schema [where w = "cluster_of [demo_foo]" and k = "(''demo'', ''foo'')"
                     and old = demo_foo and f = no_faults and req = req_foo
                     and fetched = demo_foo]
  have kept: "\<exists>new. objects (snd (Reconcile (cluster_of [demo_foo]) no_faults req_foo))
                      (''demo'', ''foo'') = Some new
          \<and> Spec new = Spec demo_foo \<and> key_of new = key_of demo_foo
          \<and> Generation (metadata new) = Generation (metadata demo_foo)"
    using at_demo c by blast
  have wr: "writes (cluster_of [demo_foo])
              (snd (Reconcile (cluster_of [demo_foo]) no_faults req_foo))
            = [CallStatusUpdate demo_foo_replied]"
    using at_demo g demo_foo_Replied(1) o by simp
  have "\<exists>stored. objects (cluster_of [demo_foo]) (key_of demo_foo) = Some stored
          \<and> objects (snd (Reconcile (cluster_of [demo_foo]) no_faults req_foo)) =
              (objects (cluster_of [demo_foo]))(key_of demo_foo \<mapsto>
                 stored\<lparr>metadata := (metadata stored)\<lparr>ResourceVersion :=
                                         Suc (ResourceVersion (metadata stored))\<rparr>,
                        Status := \<lparr>Replied = True\<rparr>\<rparr>)"
    using at_demo g demo_foo_Replied(1) ok by blast
  then have st: "objects (snd (Reconcile (cluster_of [demo_foo]) no_faults req_foo))
                   (''demo'', ''foo'')
       = Some \<lparr>metadata = \<lparr>Namespace = ''demo'', Name = ''foo'', ResourceVersion = 2,
                            Generation = 1\<rparr>,
               Spec = \<lparr>Message = ''Hallo Welt!''\<rparr>,
               Status = \<lparr>Replied = True\<rparr>\<rparr>"
    using c by (auto simp: k) (simp add: demo_foo_def)
  from a schema b refused c kept g wr ok st show ?thesis
    by blast
qed

section \<open>Properties of the exporter\<close>

lemma exposition_order_unique:
  assumes "set s1 = set s2" and "distinct (map identity s1)" and "distinct (map identity s2)"
  shows "exposition_order s1 = exposition_order s2"
  unfolding exposition_order_def
proof (rule map_sorted_distinct_set_unique [where f = identity])
  show "inj_on identity (set (sort_key identity s1) \<union> set (sort_key identity s2))"
    using assms(1,2) by (simp add: distinct_map)
  show "distinct (map identity (sort_key identity s1))"
    using assms(2) by (simp add: distinct_map)
  show "distinct (map identity (sort_key identity s2))"
    using assms(3) by (simp add: distinct_map)
  show "set (sort_key identity s1) = set (sort_key identity s2)"
    using assms(1) by simp
qed simp_all

text \<open>
  C8. The rendering is deterministic: two snapshots that hold the same series with the
  same values, one series per identity, render to the same text, in whatever order each
  snapshot lists them. The text is written series by series, in the order of the names
  and then of the lexicographically sorted label pairs.
\<close>

theorem render_deterministic:
  assumes "set s1 = set s2" and "distinct (map identity s1)" and "distinct (map identity s2)"
  shows "render help s1 = render help s2
       \<and> sorted (map identity (exposition_order s1))
       \<and> set (exposition_order s1) = set s1"
proof -
  have "render help s1 = render help s2"
    using exposition_order_unique [OF assms] by (simp add: render_def)
  moreover have "sorted (map identity (exposition_order s1))"
    by (simp add: exposition_order_def)
  moreover have "set (exposition_order s1) = set s1"
    by (simp add: exposition_order_def)
  ultimately show ?thesis by blast
qed

lemma render_readme_snapshot: "render readme_help readme_snapshot = readme_text"
  by code_simp

lemma distinct_readme_snapshot: "distinct (map identity readme_snapshot)"
  by code_simp

theorem render_deterministic_witness:
  "set (rev readme_snapshot) = set readme_snapshot
   \<and> distinct (map identity (rev readme_snapshot))
   \<and> distinct (map identity readme_snapshot)
   \<and> render readme_help (rev readme_snapshot) = readme_text
   \<and> render readme_help readme_snapshot = readme_text"
proof -
  have a: "set (rev readme_snapshot) = set readme_snapshot"
    by simp
  have b: "distinct (map identity (rev readme_snapshot))"
    using distinct_readme_snapshot by (simp add: rev_map [symmetric])
  show ?thesis
    using render_deterministic [OF a b distinct_readme_snapshot, of readme_help]
      a b distinct_readme_snapshot render_readme_snapshot
    by simp
qed

section \<open>Properties of the registry\<close>

lemma fold_value_name: "series_name (fold_value s v) = series_name s"
  by (simp add: fold_value_def split: kind.splits)

lemma filter_name_fold_value:
  "filter (\<lambda>s. series_name s = n) (map (\<lambda>s. if P s then fold_value s v else s) xs)
   = map (\<lambda>s. if P s then fold_value s v else s) (filter (\<lambda>s. series_name s = n) xs)"
  by (induction xs) (auto simp: fold_value_name)

lemma record_value_rejected:
  assumes "max_cardinality reg \<le> cardinality reg name" and "\<not> has_series reg (name, sort ls)"
  shows "record_value reg name ls v =
           Inr (reg\<lparr>cardinality_rejected_total := cardinality_rejected_total reg + 1\<rparr>)"
  using assms by (simp add: record_value_def Let_def)

lemma record_value_total: "\<exists>reg'. record_value reg name ls v = Inr reg'"
  by (simp add: record_value_def Let_def)

lemma record_value_bound:
  assumes "record_value reg name ls v = Inr reg'"
    and "cardinality reg n \<le> max_cardinality reg"
  shows "cardinality reg' n \<le> max_cardinality reg' \<and> max_cardinality reg' = max_cardinality reg"
  using assms
  by (auto simp: record_value_def Let_def cardinality_def filter_name_fold_value
        fold_value_name split: if_splits)

lemma record_all_bound:
  assumes "cardinality reg n \<le> max_cardinality reg"
  shows "\<exists>reg'. record_all reg samples = Inr reg'
           \<and> cardinality reg' n \<le> max_cardinality reg'
           \<and> max_cardinality reg' = max_cardinality reg"
  using assms
proof (induction samples arbitrary: reg)
  case Nil
  then show ?case by simp
next
  case (Cons x samples)
  obtain name ls v where x: "x = (name, ls, v)"
    by (cases x) auto
  obtain reg1 where r: "record_value reg name ls v = Inr reg1"
    using record_value_total by blast
  from record_value_bound [OF r Cons.prems] Cons.IH [of reg1] show ?case
    by (auto simp: x r)
qed

lemma record_all_rejected:
  assumes "max_cardinality reg \<le> cardinality reg name"
    and "\<forall>(ls, v) \<in> set new. \<not> has_series reg (name, sort ls)"
  shows "record_all reg (map (\<lambda>(ls, v). (name, ls, v)) new) =
           Inr (reg\<lparr>cardinality_rejected_total := cardinality_rejected_total reg + length new\<rparr>)"
  using assms
proof (induction new arbitrary: reg)
  case Nil
  show ?case by simp
next
  case (Cons x new)
  obtain ls v where x: "x = (ls, v)"
    by (cases x) auto
  let ?reg = "reg\<lparr>cardinality_rejected_total := cardinality_rejected_total reg + 1\<rparr>"
  have r: "record_value reg name ls v = Inr ?reg"
    using Cons.prems by (simp add: x record_value_rejected)
  have "record_all ?reg (map (\<lambda>(ls, v). (name, ls, v)) new) =
          Inr (?reg\<lparr>cardinality_rejected_total := cardinality_rejected_total ?reg + length new\<rparr>)"
    using Cons.prems by (intro Cons.IH) (simp_all add: cardinality_def has_series_def)
  then show ?case
    by (simp add: x r)
qed

text \<open>
  C9. Once the number of label combinations recorded under a name has reached the
  configured maximum, every record call with a new label combination for that name is
  rejected: however many such calls follow, no series is created, each call increments
  cardinality_rejected_total by one, and each returns the registry and not an error.
  Starting within the maximum, no sequence of record calls brings the number of
  combinations of a name above it.
\<close>

theorem cardinality_guard:
  assumes "max_cardinality reg \<le> cardinality reg name"
    and "\<forall>(ls, v) \<in> set new. \<not> has_series reg (name, sort ls)"
  shows "record_all reg (map (\<lambda>(ls, v). (name, ls, v)) new) =
           Inr (reg\<lparr>cardinality_rejected_total := cardinality_rejected_total reg + length new\<rparr>)
       \<and> (cardinality reg0 n \<le> max_cardinality reg0 \<longrightarrow>
            (\<exists>reg'. record_all reg0 samples = Inr reg'
               \<and> cardinality reg' n \<le> max_cardinality reg0))"
  using record_all_rejected [OF assms] record_all_bound [of reg0 n samples]
  by auto

lemma hits_registry_full:
  "max_cardinality hits_registry \<le> cardinality hits_registry ''hits''"
  by (simp add: hits_registry_def cardinality_def)

lemma hits_registry_new:
  "\<forall>(ls, v) \<in> set [([(''code'', ''500'')], 1), ([(''code'', ''302'')], 1 :: int)].
     \<not> has_series hits_registry (''hits'', sort ls)"
  by (simp add: hits_registry_def has_series_def identity_def)

theorem cardinality_guard_witness:
  "max_cardinality hits_registry \<le> cardinality hits_registry ''hits''
   \<and> \<not> has_series hits_registry (''hits'', sort [(''code'', ''500'')])
   \<and> \<not> has_series hits_registry (''hits'', sort [(''code'', ''302'')])
   \<and> record_all hits_registry
        [(''hits'', [(''code'', ''500'')], 1), (''hits'', [(''code'', ''302'')], 1)]
       = Inr (hits_registry\<lparr>cardinality_rejected_total := 2\<rparr>)
   \<and> cardinality (new_Registry 2 (\<lambda>n. Counter)) ''hits''
       \<le> max_cardinality (new_Registry 2 (\<lambda>n. Counter))
   \<and> (\<exists>reg'. record_all (new_Registry 2 (\<lambda>n. Counter))
                [(''hits'', [(''code'', ''200'')], 1), (''hits'', [(''code'', ''404'')], 1),
                 (''hits'', [(''code'', ''500'')], 1)] = Inr reg'
          \<and> cardinality reg' ''hits'' \<le> max_cardinality (new_Registry 2 (\<lambda>n. Counter)))"
proof -
  have c: "cardinality (new_Registry 2 (\<lambda>n. Counter)) ''hits''
             \<le> max_cardinality (new_Registry 2 (\<lambda>n. Counter))"
    by (simp add: new_Registry_def cardinality_def)
  have z: "cardinality_rejected_total hits_registry = 0"
    by (simp add: hits_registry_def)
  show ?thesis
    using cardinality_guard [OF hits_registry_full hits_registry_new,
            of "new_Registry 2 (\<lambda>n. Counter)" "''hits''"
               "[(''hits'', [(''code'', ''200'')], 1), (''hits'', [(''code'', ''404'')], 1),
                 (''hits'', [(''code'', ''500'')], 1)]"]
      hits_registry_full hits_registry_new c z
    by simp
qed

section \<open>Properties of the certificate watcher\<close>

lemma on_change_invalid:
  "\<not> validate_pair p now pair \<Longrightarrow>
     on_change p cw (now, pair) =
       cw\<lparr>certwatcher_read_certificate_errors_total :=
            certwatcher_read_certificate_errors_total cw + 1\<rparr>"
  by (simp add: on_change_def)

lemma on_change_served_valid: "served_valid p cw \<Longrightarrow> served_valid p (on_change p cw ev)"
  by (cases ev)
     (auto simp: on_change_def served_valid_def current_bundle_def bundle_valid_def
        validate_pair_def split: option.splits)

lemma watch_served_valid: "served_valid p cw \<Longrightarrow> served_valid p (watch p cw evs)"
  unfolding watch_def
  by (induction evs arbitrary: cw) (simp_all add: on_change_served_valid)

lemma watch_invalid_only:
  assumes "\<forall>(now, pair) \<in> set evs. \<not> validate_pair p now pair"
  shows "watch p cw evs =
           cw\<lparr>certwatcher_read_certificate_errors_total :=
                certwatcher_read_certificate_errors_total cw + length evs\<rparr>"
  using assms unfolding watch_def
  by (induction evs arbitrary: cw) (auto simp: on_change_invalid)

text \<open>
  C10. When the watcher detects a change whose pair fails validation, it increments
  certwatcher_read_certificate_errors_total by 1 and changes nothing else: the bundle
  served to readers is the one that was active before, and stays so over any further
  changes that fail validation. Whatever sequence of changes the watcher has seen since
  its start, the bundle it serves, if any, is one whose pair passed validation when it
  was loaded.
\<close>

theorem invalid_pair_keeps_bundle:
  assumes "\<not> validate_pair p now pair"
    and "\<forall>(t, q) \<in> set later. \<not> validate_pair p t q"
  shows "on_change p cw (now, pair) =
           cw\<lparr>certwatcher_read_certificate_errors_total :=
                certwatcher_read_certificate_errors_total cw + 1\<rparr>
       \<and> current_bundle (on_change p cw (now, pair)) = current_bundle cw
       \<and> current_bundle (watch p (on_change p cw (now, pair)) later) = current_bundle cw
       \<and> served_valid p (watch p new_CertWatcher evs)"
proof -
  have "served_valid p new_CertWatcher"
    by (simp add: served_valid_def current_bundle_def new_CertWatcher_def)
  then have "served_valid p (watch p new_CertWatcher evs)"
    by (rule watch_served_valid)
  then show ?thesis
    using assms(1) watch_invalid_only [OF assms(2)]
    by (simp add: on_change_invalid current_bundle_def)
qed

lemma good_pair_valid: "validate_pair demo_parsers 10 good_pair"
  by (simp add: validate_pair_def demo_parsers_def good_pair_def)

lemma bad_pair_invalid: "\<not> validate_pair demo_parsers t bad_pair"
  by (simp add: validate_pair_def demo_parsers_def bad_pair_def)

theorem invalid_pair_keeps_bundle_witness:
  "\<not> validate_pair demo_parsers 20 bad_pair
   \<and> \<not> validate_pair demo_parsers 30 bad_pair
   \<and> current_bundle (on_change demo_parsers new_CertWatcher (10, good_pair))
       = Some \<lparr>certificate = ''cert-A'', private_key = ''key-A'', load_timestamp = 10,
               generation = 1\<rparr>
   \<and> current_bundle
        (on_change demo_parsers (on_change demo_parsers new_CertWatcher (10, good_pair))
           (20, bad_pair))
       = Some \<lparr>certificate = ''cert-A'', private_key = ''key-A'', load_timestamp = 10,
               generation = 1\<rparr>
   \<and> certwatcher_read_certificate_errors_total
        (on_change demo_parsers (on_change demo_parsers new_CertWatcher (10, good_pair))
           (20, bad_pair)) = 1
   \<and> served_valid demo_parsers
        (watch demo_parsers new_CertWatcher [(10, good_pair), (20, bad_pair)])"
proof -
  have l: "\<forall>(t, q) \<in> set [(30, bad_pair)]. \<not> validate_pair demo_parsers t q"
    by (simp add: bad_pair_invalid)
  have g: "on_change demo_parsers new_CertWatcher (10, good_pair) =
             \<lparr>active = Some \<lparr>certificate = ''cert-A'', private_key = ''key-A'',
                             load_timestamp = 10, generation = 1\<rparr>,
              certwatcher_read_certificate_total = 1,
              certwatcher_read_certificate_errors_total = 0\<rparr>"
    using good_pair_valid by (simp add: on_change_def new_CertWatcher_def good_pair_def)
  show ?thesis
    using invalid_pair_keeps_bundle [OF bad_pair_invalid [of 20] l,
            where cw = "on_change demo_parsers new_CertWatcher (10, good_pair)"
              and evs = "[(10, good_pair), (20, bad_pair)]"]
      bad_pair_invalid l
    by (simp add: g current_bundle_def)
qed

end
